theory Spec2Isabelle
  imports Main "HOL-Library.Sublist"
begin

section \<open>Data model\<close>

text \<open>
  The persistent store holds the tables \<open>messages\<close>, \<open>user_points\<close> and \<open>purchases\<close>.
  Rows of \<open>messages\<close> are kept in insertion order, which is the order of \<open>created_at\<close>;
  the generated columns \<open>id\<close> and \<open>created_at\<close> are not represented.
  A \<open>content\<close> of \<open>None\<close> is the null that an insert without a content leaves,
  where the store accepts such an insert.
  JavaScript numbers that hold point counts are modelled as \<open>int\<close>, strings as
  \<open>string\<close> (one \<open>char\<close> per code unit of the JavaScript string).
\<close>

type_synonym user_id = string

datatype role = User | Assistant

record message_row =
  conversation_id :: string
  user_id :: user_id
  content :: "string option"
  role :: role
  tokens_used :: "int option"
  response_time_ms :: "int option"
  points_awarded :: "int option"

record user_points_row =
  total_points :: int
  points_spent :: int
  current_streak :: int
  last_activity_date :: "string option"

record purchase_row =
  purchase_user_id :: user_id
  item_type :: string
  item_name :: string
  points_cost :: int

text \<open>
  The request sent to the response provider: the role-tagged turns and the only
  generation parameter that varies (temperature 0.7, topK 40, topP 0.95 and the two
  safety settings are constants of the source).
\<close>

record gemini_request =
  contents :: "(string \<times> string option) list"
  maxOutputTokens :: int

text \<open>
  A candidate of the provider's reply, as far as line 535 reads it: its \<open>content\<close>,
  \<open>parts\<close> or \<open>parts[0]\<close> is missing, so that the read throws, or there is a first
  part, with a \<open>text\<close> or without one.
\<close>

datatype candidate = NoFirstPart | FirstPart "string option"

text \<open>
  What \<open>fetch\<close> and \<open>geminiResponse.json()\<close> give back: either of them throws, or
  there is a reply with its \<open>ok\<close> flag, the \<open>candidates\<close> field (absent, or a list)
  and \<open>usageMetadata?.totalTokenCount\<close>.
\<close>

datatype gemini_reply =
  FetchThrows
| HttpReply bool "candidate list option" "int option"

text \<open>
  The state that the functions read and write: the three tables and the log of the
  requests sent to the response provider.
\<close>

record world =
  messages :: "message_row list"
  user_points :: "user_id \<rightharpoonup> user_points_row"
  purchases :: "purchase_row list"
  gemini_calls :: "gemini_request list"

section \<open>The edge function \<open>chat-with-gemini\<close>\<close>

text \<open>
  The body of a request. An empty \<open>message\<close> stands for an absent, null or empty
  one: the handler's test \<open>!message\<close> does not tell them apart.
\<close>

record chat_request =
  message :: string
  conversationId :: string
  style :: "string option"
  boost :: "bool option"

record http_request =
  http_method :: string
  authorization :: "string option"
  body :: "chat_request option"

text \<open>The response body; \<open>response\<close> is left out of it when the text is undefined.\<close>

record chat_response =
  response :: "string option"
  tokensUsed :: int
  responseTime :: int
  pointsAwarded :: int

text \<open>
  An exception caught by the handler's \<open>catch\<close>: an \<open>Error\<close> thrown by the source
  with its message, or one thrown by the runtime (a \<open>TypeError\<close>, a network failure,
  a JSON syntax error).
\<close>

datatype exn = Error string | RuntimeException

datatype http_response =
  Preflight
| Ok200 chat_response
| Status500 exn

text \<open>
  Everything one invocation receives from outside the source: the identity provider,
  the outcome of each store operation, the response provider, the readings of the
  clock in milliseconds since the epoch (\<open>Date.now()\<close> at lines 427 and 536,
  \<open>new Date()\<close> at lines 543 and 552), and the time zone of the runtime, as the
  offset \<open>LocalTZA(t, isUTC)\<close> of the language specification.
\<close>

record env =
  getUser :: "string \<Rightarrow> user_id option"
  fetch_messages_ok :: bool
  save_user_message_ok :: bool
  gemini :: "gemini_request \<Rightarrow> gemini_reply"
  startTime :: int
  endTime :: int
  clock_today :: int
  clock_yesterday :: int
  LocalTZA :: "int \<Rightarrow> bool \<Rightarrow> int"
  select_user_points_ok :: bool
  update_user_points_ok :: bool
  save_assistant_message_ok :: bool

text \<open>\<open>String.prototype.replace\<close> with a string pattern: the first occurrence only.\<close>

fun replace :: "string \<Rightarrow> string \<Rightarrow> string \<Rightarrow> string" where
  "replace pat rep [] = (if pat = [] then rep else [])"
| "replace pat rep (c # cs) =
     (if prefix pat (c # cs) then rep @ drop (length pat) (c # cs)
      else c # replace pat rep cs)"

definition systemPrompt :: "string \<Rightarrow> bool \<Rightarrow> string" where
  "systemPrompt sty bst =
     (if sty = ''creative'' then
        ''You are a creative and imaginative AI assistant. Respond with flair, creativity, and engaging storytelling elements.''
      else if sty = ''professional'' then
        ''You are a professional AI assistant. Provide formal, structured, and business-appropriate responses.''
      else if sty = ''casual'' then
        ''You are a casual and friendly AI assistant. Use a relaxed, conversational tone with occasional humor.''
      else if sty = ''technical'' then
        ''You are a technical expert AI assistant. Provide detailed, precise, and technically accurate responses.''
      else
        ''You are a helpful AI assistant powered by Gemini 2.5 Flash. Provide accurate, helpful, and engaging responses.'')
     @ (if bst then
        '' This is a boosted request - provide an especially detailed and comprehensive response.''
        else [])"

definition geminiMessages ::
  "string \<Rightarrow> bool \<Rightarrow> (role \<times> string option) list \<Rightarrow> (string \<times> string option) list" where
  "geminiMessages sty bst conversationHistory =
     (''user'', Some (systemPrompt sty bst))
     # map (\<lambda>(r, c). (if r = User then ''user'' else ''model'', c)) conversationHistory"

definition gemini_request_of ::
  "string \<Rightarrow> bool \<Rightarrow> (role \<times> string option) list \<Rightarrow> gemini_request" where
  "gemini_request_of sty bst conversationHistory =
     \<lparr>contents = geminiMessages sty bst conversationHistory,
      maxOutputTokens = (if bst then 4096 else 2048)\<rparr>"

subsection \<open>Dates\<close>

definition msPerDay :: int where
  "msPerDay = 86400000"

definition Day :: "int \<Rightarrow> int" where
  "Day t = t div msPerDay"

text \<open>The year, month and day of the month of a day number (days since 1970-01-01).\<close>

definition civil :: "int \<Rightarrow> int \<times> int \<times> int" where
  "civil d =
     (let z = d + 719468;
          era = z div 146097;
          doe = z mod 146097;
          yoe = (doe - doe div 1460 + doe div 36524 - doe div 146096) div 365;
          doy = doe - (365 * yoe + yoe div 4 - yoe div 100);
          mp = (5 * doy + 2) div 153;
          dd = doy - (153 * mp + 2) div 5 + 1;
          m = (if mp < 10 then mp + 3 else mp - 9);
          y = yoe + era * 400 + (if m \<le> 2 then 1 else 0)
      in (y, m, dd))"

definition digit :: "int \<Rightarrow> char" where
  "digit n = ''0123456789'' ! nat (n mod 10)"

definition two_digits :: "int \<Rightarrow> string" where
  "two_digits n = [digit (n div 10), digit n]"

definition four_digits :: "int \<Rightarrow> string" where
  "four_digits n = [digit (n div 1000), digit (n div 100), digit (n div 10), digit n]"

definition six_digits :: "int \<Rightarrow> string" where
  "six_digits n = [digit (n div 100000), digit (n div 10000)] @ four_digits n"

definition year_string :: "int \<Rightarrow> string" where
  "year_string y =
     (if 0 \<le> y \<and> y \<le> 9999 then four_digits y
      else if y < 0 then ''-'' @ six_digits (- y)
      else ''+'' @ six_digits y)"

text \<open>
  \<open>toISOString().split('T')[0]\<close> of a time value: the date in UTC, as
  \<open>YYYY-MM-DD\<close> (with a sign and six digits for a year outside 0 to 9999).
\<close>

definition toISODate :: "int \<Rightarrow> string" where
  "toISODate t =
     (let (y, m, d) = civil (Day t)
      in year_string y @ ''-'' @ two_digits m @ ''-'' @ two_digits d)"

text \<open>
  The conversions between a time value and the local time of the runtime's zone, as
  the language specification defines them.
\<close>

definition LocalTime :: "env \<Rightarrow> int \<Rightarrow> int" where
  "LocalTime e t = t + LocalTZA e t True"

definition UTC :: "env \<Rightarrow> int \<Rightarrow> int" where
  "UTC e t = t - LocalTZA e t False"

text \<open>Line 543: \<open>new Date().toISOString().split('T')[0]\<close>.\<close>

definition today :: "env \<Rightarrow> string" where
  "today e = toISODate (clock_today e)"

text \<open>
  Lines 552 and 553: \<open>new Date()\<close> and \<open>setDate(getDate() - 1)\<close>. \<open>setDate\<close> works
  on the local time: it puts the day of the month before the present one into the
  local date, which is the local time of one day earlier, keeps the time within the
  day, and converts the result back.
\<close>

definition yesterdayTime :: "env \<Rightarrow> int" where
  "yesterdayTime e = UTC e (LocalTime e (clock_yesterday e) - msPerDay)"

text \<open>Line 554: \<open>yesterday.toISOString().split('T')[0]\<close>.\<close>

definition yesterdayStr :: "env \<Rightarrow> string" where
  "yesterdayStr e = toISODate (yesterdayTime e)"

subsection \<open>The reward\<close>

text \<open>
  Lines 556 to 563: the points awarded and the new streak, from the ledger's
  \<open>last_activity_date\<close> and \<open>current_streak\<close> and the two date strings.
\<close>

definition reward :: "string option \<Rightarrow> string \<Rightarrow> string \<Rightarrow> int \<Rightarrow> int \<times> int" where
  "reward lastActivityDate yesterdayS todayS streak =
     (if lastActivityDate = Some yesterdayS then (1 + 5, streak + 1)
      else if lastActivityDate = Some todayS then (1, streak)
      else (1, 1))"

definition pointsCost :: "bool \<Rightarrow> int" where
  "pointsCost bst = (if bst then 10 else 0)"

text \<open>
  Lines 539 to 584: the reward block. Without a ledger row (or when the select fails)
  the block is skipped and the award stays at its initial value 1. The outcome of the
  update is not inspected by the source.
\<close>

definition reward_block :: "env \<Rightarrow> user_id \<Rightarrow> bool \<Rightarrow> world \<Rightarrow> int \<times> world" where
  "reward_block e user bst w =
     (case (if select_user_points_ok e then user_points w user else None) of
        None \<Rightarrow> (1, w)
      | Some userPoints \<Rightarrow>
          (let (awarded, newStreak) =
                 reward (last_activity_date userPoints) (yesterdayStr e) (today e)
                   (current_streak userPoints);
               newTotalPoints = max 0 (total_points userPoints + awarded - pointsCost bst);
               newPointsSpent = points_spent userPoints + pointsCost bst
           in (awarded,
               if update_user_points_ok e then
                 w\<lparr>user_points := (user_points w)(user \<mapsto>
                      userPoints
                        \<lparr>total_points := newTotalPoints,
                         points_spent := newPointsSpent,
                         current_streak := newStreak,
                         last_activity_date := Some (today e)\<rparr>)\<rparr>
               else w)))"

text \<open>The rows inserted at lines 444 to 449 and at lines 589 to 597.\<close>

definition user_message_row :: "user_id \<Rightarrow> chat_request \<Rightarrow> message_row" where
  "user_message_row user b =
     \<lparr>conversation_id = conversationId b, user_id = user, content = Some (message b),
      role = User, tokens_used = None, response_time_ms = None, points_awarded = None\<rparr>"

definition assistant_message_row ::
  "user_id \<Rightarrow> chat_request \<Rightarrow> chat_response \<Rightarrow> message_row" where
  "assistant_message_row user b r =
     \<lparr>conversation_id = conversationId b, user_id = user, content = response r,
      role = Assistant, tokens_used = Some (tokensUsed r),
      response_time_ms = Some (responseTime r),
      points_awarded = Some (pointsAwarded r)\<rparr>"

text \<open>A failed insert is logged and the handler goes on.\<close>

definition save_user_message :: "env \<Rightarrow> user_id \<Rightarrow> chat_request \<Rightarrow> world \<Rightarrow> world" where
  "save_user_message e user b w =
     (if save_user_message_ok e then w\<lparr>messages := messages w @ [user_message_row user b]\<rparr>
      else w)"

definition save_assistant_message ::
  "env \<Rightarrow> user_id \<Rightarrow> chat_request \<Rightarrow> chat_response \<Rightarrow> world \<Rightarrow> world" where
  "save_assistant_message e user b r w =
     (if save_assistant_message_ok e then
        w\<lparr>messages := messages w @ [assistant_message_row user b r]\<rparr>
      else w)"

text \<open>
  Lines 523 to 613: from the provider's reply to the response. A first part without a
  text leaves \<open>aiResponse\<close> undefined, and the handler goes on with it.
\<close>

definition finish ::
  "env \<Rightarrow> user_id \<Rightarrow> chat_request \<Rightarrow> bool \<Rightarrow> gemini_reply \<Rightarrow> world \<Rightarrow> http_response \<times> world" where
  "finish e user b bst reply w =
     (case reply of
        FetchThrows \<Rightarrow> (Status500 RuntimeException, w)
      | HttpReply ok cands totalTokenCount \<Rightarrow>
          if \<not> ok then (Status500 (Error ''Failed to get response from Gemini''), w)
          else (case cands of
              None \<Rightarrow> (Status500 (Error ''No response generated from Gemini''), w)
            | Some [] \<Rightarrow> (Status500 (Error ''No response generated from Gemini''), w)
            | Some (NoFirstPart # _) \<Rightarrow> (Status500 RuntimeException, w)
            | Some (FirstPart aiResponse # _) \<Rightarrow>
                (let (awarded, w1) = reward_block e user bst w;
                     r = \<lparr>response = aiResponse,
                          tokensUsed = (case totalTokenCount of None \<Rightarrow> 0 | Some n \<Rightarrow> n),
                          responseTime = endTime e - startTime e,
                          pointsAwarded = awarded\<rparr>
                 in (Ok200 r, save_assistant_message e user b r w1))))"

text \<open>Lines 421 to 521: validation, history, the user message and the provider call.\<close>

definition style_of :: "chat_request \<Rightarrow> string" where
  "style_of b = (case style b of None \<Rightarrow> ''default'' | Some s \<Rightarrow> s)"

definition boost_of :: "chat_request \<Rightarrow> bool" where
  "boost_of b = (case boost b of None \<Rightarrow> False | Some x \<Rightarrow> x)"

definition conversationHistory :: "chat_request \<Rightarrow> world \<Rightarrow> (role \<times> string option) list" where
  "conversationHistory b w =
     map (\<lambda>m. (role m, content m))
       (filter (\<lambda>m. conversation_id m = conversationId b) (messages w))
     @ [(User, Some (message b))]"

definition provider_request :: "chat_request \<Rightarrow> world \<Rightarrow> gemini_request" where
  "provider_request b w =
     gemini_request_of (style_of b) (boost_of b) (conversationHistory b w)"

definition call_gemini :: "chat_request \<Rightarrow> world \<Rightarrow> world \<Rightarrow> world" where
  "call_gemini b w w1 = w1\<lparr>gemini_calls := gemini_calls w1 @ [provider_request b w]\<rparr>"

definition chat :: "env \<Rightarrow> user_id \<Rightarrow> chat_request \<Rightarrow> world \<Rightarrow> http_response \<times> world" where
  "chat e user b w =
     (if message b = [] \<or> conversationId b = [] then
        (Status500 (Error ''Message and conversation ID are required''), w)
      else if \<not> fetch_messages_ok e then
        (Status500 (Error ''Failed to fetch conversation history''), w)
      else
        finish e user b (boost_of b) (gemini e (provider_request b w))
          (call_gemini b w (save_user_message e user b w)))"

text \<open>Lines 412 to 419: the user of the request, from its \<open>Authorization\<close> header.\<close>

definition requester :: "env \<Rightarrow> http_request \<Rightarrow> exn + user_id" where
  "requester e req =
     (case authorization req of
        None \<Rightarrow> Inl RuntimeException
      | Some authHeader \<Rightarrow>
          (case getUser e (replace ''Bearer '' [] authHeader) of
             None \<Rightarrow> Inl (Error ''Unauthorized'')
           | Some user \<Rightarrow> Inr user))"

definition serve :: "env \<Rightarrow> http_request \<Rightarrow> world \<Rightarrow> http_response \<times> world" where
  "serve e req w =
     (if http_method req = ''OPTIONS'' then (Preflight, w)
      else (case requester e req of
          Inl x \<Rightarrow> (Status500 x, w)
        | Inr user \<Rightarrow>
            (case body req of
               None \<Rightarrow> (Status500 RuntimeException, w)
             | Some b \<Rightarrow> chat e user b w)))"

text \<open>
  The error kind \<open>ProviderError\<close> of the specification: the two errors the source
  throws on the provider's reply (lines 526 and 532).
\<close>

definition ProviderError :: "exn \<Rightarrow> bool" where
  "ProviderError x =
     (x = Error ''Failed to get response from Gemini''
      \<or> x = Error ''No response generated from Gemini'')"

section \<open>The points display and its shop\<close>

record points_display =
  auth_user :: "user_id option"
  userPoints :: "user_points_row option"

datatype toast = InsufficientPoints | PurchaseSuccessful | PurchaseFailed

record purchase_env =
  insert_purchase_ok :: bool
  update_points_ok :: bool

text \<open>
  \<open>loadUserPoints\<close>: the select of the user's single ledger row into the component's
  state; on an error (also when there is no row) the state keeps its value.
\<close>

definition loadUserPoints :: "bool \<Rightarrow> points_display \<Rightarrow> world \<Rightarrow> points_display" where
  "loadUserPoints select_ok pd w =
     (case auth_user pd of
        None \<Rightarrow> pd
      | Some u \<Rightarrow>
          (case (if select_ok then user_points w u else None) of
             None \<Rightarrow> pd
           | Some row \<Rightarrow> pd\<lparr>userPoints := Some row\<rparr>))"

text \<open>
  \<open>purchaseItem\<close> works on the component's copy of the ledger row. The update
  addresses the row by user id, so it changes nothing when the store has no such row.
\<close>

definition purchaseItem ::
  "purchase_env \<Rightarrow> string \<Rightarrow> string \<Rightarrow> int \<Rightarrow> points_display \<Rightarrow> world
     \<Rightarrow> toast option \<times> points_display \<times> world" where
  "purchaseItem pe itemType itemName cost pd w =
     (case auth_user pd of
        None \<Rightarrow> (None, pd, w)
      | Some u \<Rightarrow>
          (case userPoints pd of
             None \<Rightarrow> (None, pd, w)
           | Some up \<Rightarrow>
               if total_points up < cost then (Some InsufficientPoints, pd, w)
               else if \<not> insert_purchase_ok pe then (Some PurchaseFailed, pd, w)
               else
                 (let w1 = w\<lparr>purchases := purchases w @
                             [\<lparr>purchase_user_id = u, item_type = itemType,
                               item_name = itemName, points_cost = cost\<rparr>]\<rparr>;
                      newTotalPoints = total_points up - cost;
                      newPointsSpent = points_spent up + cost
                  in if \<not> update_points_ok pe then (Some PurchaseFailed, pd, w1)
                     else
                       (Some PurchaseSuccessful,
                        pd\<lparr>userPoints := Some (up\<lparr>total_points := newTotalPoints,
                                                    points_spent := newPointsSpent\<rparr>)\<rparr>,
                        (case user_points w1 u of
                           None \<Rightarrow> w1
                         | Some row \<Rightarrow>
                             w1\<lparr>user_points := (user_points w1)(u \<mapsto>
                                  row\<lparr>total_points := newTotalPoints,
                                      points_spent := newPointsSpent\<rparr>)\<rparr>)))))"

text \<open>
  Any sequence of ledger-changing operations: invocations of the edge function and
  purchases, each purchase made from whatever copy of the ledger its component holds.
\<close>

datatype event =
  Serve env http_request
| PurchaseItem purchase_env string string int points_display

fun step :: "event \<Rightarrow> world \<Rightarrow> world" where
  "step (Serve e req) w = snd (serve e req w)"
| "step (PurchaseItem pe itemType itemName cost pd) w =
     snd (snd (purchaseItem pe itemType itemName cost pd w))"

fun run :: "event list \<Rightarrow> world \<Rightarrow> world" where
  "run [] w = w"
| "run (ev # evs) w = run evs (step ev w)"

definition ledger_nonneg :: "world \<Rightarrow> bool" where
  "ledger_nonneg w = (\<forall>u row. user_points w u = Some row \<longrightarrow> 0 \<le> total_points row)"

section \<open>The chat interface\<close>

text \<open>
  A message held by the component: the temporary one that \<open>sendMessage\<close> shows while
  the request runs (its id is \<open>temp\<close>), or a row loaded from the store.
\<close>

datatype ui_message = Temp string | Loaded message_row

fun ui_role :: "ui_message \<Rightarrow> role" where
  "ui_role (Temp c) = User"
| "ui_role (Loaded m) = role m"

fun ui_content :: "ui_message \<Rightarrow> string option" where
  "ui_content (Temp c) = Some c"
| "ui_content (Loaded m) = content m"

fun is_temp :: "ui_message \<Rightarrow> bool" where
  "is_temp (Temp c) = True"
| "is_temp (Loaded m) = False"

record chat_interface =
  prop_conversationId :: string
  st_user :: "user_id option"
  st_messages :: "ui_message list"
  st_inputMessage :: string
  st_loading :: bool
  st_boost :: bool
  st_style :: string

record client_env =
  server :: env
  access_token :: string
  load_messages_ok :: bool

definition loadMessages :: "client_env \<Rightarrow> world \<Rightarrow> chat_interface \<Rightarrow> chat_interface" where
  "loadMessages ce w st =
     (if prop_conversationId st = [] then st
      else if \<not> load_messages_ok ce then st
      else st\<lparr>st_messages :=
             map Loaded (filter (\<lambda>m. conversation_id m = prop_conversationId st) (messages w))\<rparr>)"

text \<open>
  \<open>supabase.functions.invoke('chat-with-gemini', {body})\<close>: a POST to the edge function
  with the session's bearer token; any reply other than a success is an error. The
  message is a string or null.
\<close>

definition invoke_request ::
  "client_env \<Rightarrow> chat_interface \<Rightarrow> string option \<Rightarrow> http_request" where
  "invoke_request ce st msg =
     \<lparr>http_method = ''POST'',
      authorization = Some (''Bearer '' @ access_token ce),
      body = Some \<lparr>message = (case msg of None \<Rightarrow> [] | Some c \<Rightarrow> c),
                   conversationId = prop_conversationId st,
                   style = Some (st_style st), boost = Some (st_boost st)\<rparr>\<rparr>"

definition invoke ::
  "client_env \<Rightarrow> chat_interface \<Rightarrow> string option \<Rightarrow> world
     \<Rightarrow> chat_response option \<times> world" where
  "invoke ce st msg w =
     (case serve (server ce) (invoke_request ce st msg) w of
        (Ok200 r, w') \<Rightarrow> (Some r, w')
      | (_, w') \<Rightarrow> (None, w'))"

text \<open>\<open>String.prototype.trim\<close>, on the white space that fits a \<open>char\<close>.\<close>

definition isWhiteSpace :: "char \<Rightarrow> bool" where
  "isWhiteSpace c = (of_char c \<in> {9, 10, 11, 12, 13, 32, 160 :: nat})"

definition trim :: "string \<Rightarrow> string" where
  "trim s = rev (dropWhile isWhiteSpace (rev (dropWhile isWhiteSpace s)))"

text \<open>Lines 105 to 107 of the chat interface: the title made from the first message.\<close>

definition title :: "string \<Rightarrow> string" where
  "title userMessage =
     (if length userMessage > 50 then take 47 userMessage @ ''...'' else userMessage)"

text \<open>
  \<open>sendMessage\<close>: the first component of the result is the argument of
  \<open>onUpdateTitle\<close> when it is called. \<open>messages.length\<close> is read from the state the
  handler was created with, before the temporary message is added.
\<close>

definition sendMessage ::
  "client_env \<Rightarrow> chat_interface \<Rightarrow> world \<Rightarrow> string option \<times> chat_interface \<times> world" where
  "sendMessage ce st w =
     (if trim (st_inputMessage st) = [] \<or> st_loading st \<or> st_user st = None then (None, st, w)
      else
        (let userMessage = trim (st_inputMessage st);
             st1 = st\<lparr>st_inputMessage := [], st_messages := st_messages st @ [Temp userMessage]\<rparr>
         in case invoke ce st (Some userMessage) w of
              (Some data, w') \<Rightarrow>
                ((if length (st_messages st) = 0 then Some (title userMessage) else None),
                 (loadMessages ce w' st1)\<lparr>st_boost := False, st_loading := False\<rparr>,
                 w')
            | (None, w') \<Rightarrow>
                (None,
                 st1\<lparr>st_messages := filter (\<lambda>m. \<not> is_temp m) (st_messages st1),
                     st_loading := False\<rparr>,
                 w')))"

text \<open>
  \<open>regenerateResponse\<close>: reading \<open>messages[messageIndex - 1].role\<close> beyond the end of
  the list throws before any state is changed.
\<close>

definition regenerateResponse ::
  "client_env \<Rightarrow> nat \<Rightarrow> chat_interface \<Rightarrow> world \<Rightarrow> chat_interface \<times> world" where
  "regenerateResponse ce messageIndex st w =
     (if messageIndex = 0 \<or> st_loading st then (st, w)
      else if length (st_messages st) \<le> messageIndex - 1 then (st, w)
      else
        (let userMessage = st_messages st ! (messageIndex - 1)
         in if ui_role userMessage \<noteq> User then (st, w)
            else (case invoke ce st (ui_content userMessage) w of
                (Some data, w') \<Rightarrow>
                  ((loadMessages ce w' st)\<lparr>st_boost := False, st_loading := False\<rparr>, w')
              | (None, w') \<Rightarrow> (st\<lparr>st_loading := False\<rparr>, w'))))"

section \<open>Example inputs\<close>

text \<open>A runtime in UTC, at 2024-03-02T12:00:00Z.\<close>

definition example_env :: env where
  "example_env =
     \<lparr>getUser = (\<lambda>t. if t = ''token-ann'' then Some ''ann'' else None),
      fetch_messages_ok = True,
      save_user_message_ok = True,
      gemini = (\<lambda>q. HttpReply True (Some [FirstPart (Some ''Hello!'')]) (Some 42)),
      startTime = 1709380799750,
      endTime = 1709380800000,
      clock_today = 1709380800000,
      clock_yesterday = 1709380800000,
      LocalTZA = (\<lambda>t isUTC. 0),
      select_user_points_ok = True,
      update_user_points_ok = True,
      save_assistant_message_ok = True\<rparr>"

definition example_request :: "bool \<Rightarrow> http_request" where
  "example_request bst =
     \<lparr>http_method = ''POST'',
      authorization = Some ''Bearer token-ann'',
      body = Some \<lparr>message = ''Hi'', conversationId = ''c1'',
                   style = Some ''technical'', boost = Some bst\<rparr>\<rparr>"

definition example_row :: "int \<Rightarrow> string option \<Rightarrow> user_points_row" where
  "example_row pts lastDate =
     \<lparr>total_points = pts, points_spent = 0, current_streak = 2,
      last_activity_date = lastDate\<rparr>"

definition example_world :: "int \<Rightarrow> string option \<Rightarrow> world" where
  "example_world pts lastDate =
     \<lparr>messages = [],
      user_points = [''ann'' \<mapsto> example_row pts lastDate],
      purchases = [],
      gemini_calls = []\<rparr>"

definition new_user_world :: world where
  "new_user_world = \<lparr>messages = [], user_points = Map.empty, purchases = [], gemini_calls = []\<rparr>"

text \<open>
  A runtime in UTC where midnight falls between the two readings of the clock: the
  first is 2024-03-01T23:59:59.900Z, the second 2024-03-02T00:00:00.100Z.
\<close>

definition midnight_env :: env where
  "midnight_env =
     example_env
       \<lparr>startTime := 1709337599650,
        endTime := 1709337599900,
        clock_today := 1709337599900,
        clock_yesterday := 1709337600100\<rparr>"

text \<open>
  A runtime in the zone of New York at 2024-11-04T00:30:00Z, the evening of the day on
  which daylight saving time ended (at 2024-11-03T06:00:00Z; local times before 02:00
  of that day have the offset of four hours, later ones that of five).
\<close>

definition new_york_env :: env where
  "new_york_env =
     example_env
       \<lparr>startTime := 1730680199750,
        endTime := 1730680200000,
        clock_today := 1730680200000,
        clock_yesterday := 1730680200000,
        LocalTZA := (\<lambda>t isUTC.
          if isUTC then (if t < 1730613600000 then - 14400000 else - 18000000)
          else (if t < 1730599200000 then - 14400000 else - 18000000))\<rparr>"

definition no_candidates_env :: env where
  "no_candidates_env = example_env\<lparr>gemini := (\<lambda>q. HttpReply True (Some []) None)\<rparr>"

definition example_purchase_env :: purchase_env where
  "example_purchase_env = \<lparr>insert_purchase_ok = True, update_points_ok = True\<rparr>"

definition example_display :: "int \<Rightarrow> points_display" where
  "example_display pts =
     \<lparr>auth_user = Some ''ann'', userPoints = Some (example_row pts None)\<rparr>"

definition example_events :: "event list" where
  "example_events =
     [Serve example_env (example_request True),
      PurchaseItem example_purchase_env ''style_pack'' ''Creative'' 5 (example_display 7),
      Serve example_env (example_request True),
      PurchaseItem example_purchase_env ''boost'' ''Response Boost'' 10 (example_display 10)]"

definition example_client_env :: client_env where
  "example_client_env =
     \<lparr>server = example_env, access_token = ''token-ann'', load_messages_ok = True\<rparr>"

definition example_chat_world :: world where
  "example_chat_world =
     \<lparr>messages =
        [\<lparr>conversation_id = ''c1'', user_id = ''ann'', content = Some ''Hi'', role = User,
          tokens_used = None, response_time_ms = None, points_awarded = None\<rparr>,
         \<lparr>conversation_id = ''c1'', user_id = ''ann'', content = Some ''Hello!'',
          role = Assistant,
          tokens_used = Some 42, response_time_ms = Some 250, points_awarded = Some 1\<rparr>],
      user_points = [''ann'' \<mapsto> example_row 1 (Some ''2024-03-02'')],
      purchases = [],
      gemini_calls = []\<rparr>"

definition example_interface :: chat_interface where
  "example_interface =
     \<lparr>prop_conversationId = ''c1'',
      st_user = Some ''ann'',
      st_messages = map Loaded (messages example_chat_world),
      st_inputMessage = [],
      st_loading = False,
      st_boost = False,
      st_style = ''default''\<rparr>"

definition new_chat_interface :: "string \<Rightarrow> chat_interface" where
  "new_chat_interface input =
     \<lparr>prop_conversationId = ''c1'',
      st_user = Some ''ann'',
      st_messages = [],
      st_inputMessage = input,
      st_loading = False,
      st_boost = False,
      st_style = ''default''\<rparr>"

section \<open>Auxiliary lemmas\<close>

lemma toISODate_examples:
  "toISODate 1709380800000 = ''2024-03-02''"
  "toISODate 1709294400000 = ''2024-03-01''"
  "toISODate 1709337599900 = ''2024-03-01''"
  "toISODate 1709251200100 = ''2024-03-01''"
  "toISODate 1709251199900 = ''2024-02-29''"
  "toISODate 1730680200000 = ''2024-11-04''"
  "toISODate 1730590200000 = ''2024-11-02''"
  "toISODate 1730593800000 = ''2024-11-03''"
  "toISODate 1730507400000 = ''2024-11-02''"
  by code_simp+

lemmas example_defs = example_env_def example_request_def example_world_def example_row_def
  new_user_world_def no_candidates_env_def midnight_env_def new_york_env_def

lemmas serve_defs = serve_def requester_def chat_def finish_def reward_block_def reward_def
  pointsCost_def save_user_message_def save_assistant_message_def call_gemini_def
  user_message_row_def assistant_message_row_def
  provider_request_def gemini_request_of_def geminiMessages_def systemPrompt_def
  conversationHistory_def style_of_def boost_of_def
  today_def yesterdayStr_def yesterdayTime_def LocalTime_def UTC_def msPerDay_def
  toISODate_examples

lemma user_points_save_user_message:
  "user_points (save_user_message e u b w) = user_points w"
  by (simp add: save_user_message_def)

lemma user_points_call_gemini:
  "user_points (call_gemini b w w1) = user_points w1"
  by (simp add: call_gemini_def)

lemma user_points_save_assistant_message:
  "user_points (save_assistant_message e u b r w) = user_points w"
  by (simp add: save_assistant_message_def)

lemma messages_call_gemini:
  "messages (call_gemini b w w1) = messages w1"
  by (simp add: call_gemini_def)

lemma fst_reward_block_cases:
  "fst (reward_block e u bst w) = 1 \<or> fst (reward_block e u bst w) = 6"
  by (simp add: reward_block_def reward_def split: option.splits)

lemma messages_reward_block:
  "messages (snd (reward_block e u bst w)) = messages w"
  by (simp add: reward_block_def reward_def split: option.splits)

lemma finish_Ok200D:
  assumes "finish e u b bst reply w = (Ok200 r, w')"
  shows "\<exists>ai cs tok. reply = HttpReply True (Some (FirstPart ai # cs)) tok
       \<and> r = \<lparr>response = ai,
              tokensUsed = (case tok of None \<Rightarrow> 0 | Some n \<Rightarrow> n),
              responseTime = endTime e - startTime e,
              pointsAwarded = fst (reward_block e u bst w)\<rparr>
       \<and> w' = save_assistant_message e u b r (snd (reward_block e u bst w))"
  using assms
  by (auto simp: finish_def Let_def split: gemini_reply.splits if_splits option.splits
      list.splits candidate.splits prod.splits)

lemma chat_Ok200D:
  assumes "chat e u b w = (Ok200 r, w')"
  shows "message b \<noteq> [] \<and> conversationId b \<noteq> [] \<and> fetch_messages_ok e
       \<and> finish e u b (boost_of b) (gemini e (provider_request b w))
            (call_gemini b w (save_user_message e u b w)) = (Ok200 r, w')"
  using assms by (auto simp: chat_def split: if_splits)

lemma serve_Ok200D:
  assumes "serve e req w = (Ok200 r, w')"
  shows "\<exists>u b. requester e req = Inr u \<and> body req = Some b \<and> chat e u b w = (Ok200 r, w')"
  using assms by (auto simp: serve_def split: if_splits sum.splits option.splits)

lemma reward_block_cong:
  assumes "user_points w1 = user_points w"
  shows "fst (reward_block e u bst w1) = fst (reward_block e u bst w)"
    and "user_points (snd (reward_block e u bst w1)) = user_points (snd (reward_block e u bst w))"
  using assms by (simp_all add: reward_block_def Let_def split: option.splits prod.splits)

lemma reward_block_skipped:
  assumes "user_points w u = None"
  shows "reward_block e u bst w = (1, w)"
  using assms by (simp add: reward_block_def)

lemma reward_block_row:
  assumes "select_user_points_ok e" and "user_points w u = Some row"
  shows "fst (reward_block e u bst w)
           = fst (reward (last_activity_date row) (yesterdayStr e) (today e) (current_streak row))"
    and "update_user_points_ok e \<Longrightarrow>
         user_points (snd (reward_block e u bst w)) =
           (user_points w)(u \<mapsto>
             row\<lparr>total_points := max 0 (total_points row
                  + fst (reward (last_activity_date row) (yesterdayStr e) (today e) (current_streak row))
                  - pointsCost bst),
              points_spent := points_spent row + pointsCost bst,
              current_streak := snd (reward (last_activity_date row) (yesterdayStr e) (today e) (current_streak row)),
              last_activity_date := Some (today e)\<rparr>)"
    and "\<not> update_user_points_ok e \<Longrightarrow> snd (reward_block e u bst w) = w"
  using assms by (simp_all add: reward_block_def Let_def split: prod.splits)

text \<open>
  A successful invocation answers with the award of the reward block, and leaves the
  ledger as the reward block leaves it.
\<close>

lemma serve_Ok200_ledger:
  assumes "fst (serve e req w) = Ok200 r" and "requester e req = Inr u"
  shows "\<exists>b. body req = Some b
           \<and> pointsAwarded r = fst (reward_block e u (boost_of b) w)
           \<and> user_points (snd (serve e req w)) = user_points (snd (reward_block e u (boost_of b) w))"
proof -
  obtain w' where s: "serve e req w = (Ok200 r, w')"
    using assms(1) by (cases "serve e req w") simp
  from serve_Ok200D[OF s] assms(2) obtain b where b: "body req = Some b"
    and c: "chat e u b w = (Ok200 r, w')" by auto
  let ?w2 = "call_gemini b w (save_user_message e u b w)"
  have up: "user_points ?w2 = user_points w"
    by (simp add: user_points_call_gemini user_points_save_user_message)
  from chat_Ok200D[OF c] have
    "finish e u b (boost_of b) (gemini e (provider_request b w)) ?w2 = (Ok200 r, w')" by simp
  from finish_Ok200D[OF this] have r: "pointsAwarded r = fst (reward_block e u (boost_of b) ?w2)"
    and w': "w' = save_assistant_message e u b r (snd (reward_block e u (boost_of b) ?w2))"
    by auto
  have "pointsAwarded r = fst (reward_block e u (boost_of b) w)"
    using r reward_block_cong(1)[OF up] by simp
  moreover have "user_points w' = user_points (snd (reward_block e u (boost_of b) w))"
    using w' reward_block_cong(2)[OF up] by (simp add: user_points_save_assistant_message)
  ultimately show ?thesis using b s by simp
qed

lemma serve_Ok200_messages:
  assumes "fst (serve e req w) = Ok200 r" and "requester e req = Inr u"
  shows "\<exists>b. body req = Some b \<and> message b \<noteq> []
           \<and> messages (snd (serve e req w)) =
               messages w
               @ (if save_user_message_ok e then [user_message_row u b] else [])
               @ (if save_assistant_message_ok e then [assistant_message_row u b r] else [])"
proof -
  obtain w' where s: "serve e req w = (Ok200 r, w')"
    using assms(1) by (cases "serve e req w") simp
  from serve_Ok200D[OF s] assms(2) obtain b where b: "body req = Some b"
    and c: "chat e u b w = (Ok200 r, w')" by auto
  let ?w2 = "call_gemini b w (save_user_message e u b w)"
  from chat_Ok200D[OF c] have
    "finish e u b (boost_of b) (gemini e (provider_request b w)) ?w2 = (Ok200 r, w')" by simp
  from finish_Ok200D[OF this]
  have w': "w' = save_assistant_message e u b r (snd (reward_block e u (boost_of b) ?w2))"
    by auto
  have "messages w' = messages (save_user_message e u b w)
          @ (if save_assistant_message_ok e then [assistant_message_row u b r] else [])"
    unfolding w' by (simp add: save_assistant_message_def messages_reward_block messages_call_gemini)
  then show ?thesis using b s chat_Ok200D[OF c] by (simp add: save_user_message_def)
qed

lemma purchases_reward_block: "purchases (snd (reward_block e u bst w)) = purchases w"
  by (simp add: reward_block_def Let_def split: option.splits prod.splits)

lemma purchases_finish: "purchases (snd (finish e u b bst reply w)) = purchases w"
  by (cases reply)
    (auto simp: finish_def Let_def split_beta save_assistant_message_def purchases_reward_block
      split: option.splits list.splits candidate.splits)

lemma purchases_chat: "purchases (snd (chat e u b w)) = purchases w"
  by (simp add: chat_def purchases_finish call_gemini_def save_user_message_def)

lemma purchases_serve: "purchases (snd (serve e req w)) = purchases w"
  by (simp add: serve_def purchases_chat split: sum.splits option.splits)

section \<open>The streak rules\<close>

text \<open>
  The three branches of lines 556 to 563, in terms of the two date strings that the
  handler computes: the branch of \<open>yesterdayStr\<close> is tested first, that of
  \<open>today\<close> second.
\<close>

lemma serve_last_activity_yesterdayStr:
  assumes "fst (serve e req w) = Ok200 r"
    and "requester e req = Inr u"
    and "select_user_points_ok e"
    and "user_points w u = Some row"
    and "last_activity_date row = Some (yesterdayStr e)"
  shows "pointsAwarded r = 6
       \<and> reward (last_activity_date row) (yesterdayStr e) (today e) (current_streak row)
           = (6, current_streak row + 1)
       \<and> (update_user_points_ok e \<longrightarrow>
            map_option current_streak (user_points (snd (serve e req w)) u)
              = Some (current_streak row + 1))"
proof -
  have rw: "reward (last_activity_date row) (yesterdayStr e) (today e) (current_streak row)
              = (6, current_streak row + 1)"
    using assms(5) by (simp add: reward_def)
  from serve_Ok200_ledger[OF assms(1,2)] obtain b where
    p: "pointsAwarded r = fst (reward_block e u (boost_of b) w)" and
    l: "user_points (snd (serve e req w)) = user_points (snd (reward_block e u (boost_of b) w))"
    by auto
  have "pointsAwarded r = 6"
    using p reward_block_row(1)[OF assms(3,4)] rw by simp
  moreover have "map_option current_streak (user_points (snd (serve e req w)) u)
              = Some (current_streak row + 1)" if "update_user_points_ok e"
    using l reward_block_row(2)[OF assms(3,4) that] rw by simp
  ultimately show ?thesis using rw by simp
qed

lemma serve_last_activity_today:
  assumes "fst (serve e req w) = Ok200 r"
    and "requester e req = Inr u"
    and "select_user_points_ok e"
    and "user_points w u = Some row"
    and "last_activity_date row = Some (today e)"
    and "yesterdayStr e \<noteq> today e"
  shows "pointsAwarded r = 1
       \<and> reward (last_activity_date row) (yesterdayStr e) (today e) (current_streak row)
           = (1, current_streak row)
       \<and> (update_user_points_ok e \<longrightarrow>
            map_option current_streak (user_points (snd (serve e req w)) u)
              = Some (current_streak row))"
proof -
  have rw: "reward (last_activity_date row) (yesterdayStr e) (today e) (current_streak row)
              = (1, current_streak row)"
    using assms(5,6) by (auto simp: reward_def)
  from serve_Ok200_ledger[OF assms(1,2)] obtain b where
    p: "pointsAwarded r = fst (reward_block e u (boost_of b) w)" and
    l: "user_points (snd (serve e req w)) = user_points (snd (reward_block e u (boost_of b) w))"
    by auto
  have "pointsAwarded r = 1"
    using p reward_block_row(1)[OF assms(3,4)] rw by simp
  moreover have "map_option current_streak (user_points (snd (serve e req w)) u)
              = Some (current_streak row)" if "update_user_points_ok e"
    using l reward_block_row(2)[OF assms(3,4) that] rw by simp
  ultimately show ?thesis using rw by simp
qed

lemma serve_last_activity_other:
  assumes "fst (serve e req w) = Ok200 r"
    and "requester e req = Inr u"
    and "select_user_points_ok e"
    and "user_points w u = Some row"
    and "last_activity_date row \<noteq> Some (yesterdayStr e)"
    and "last_activity_date row \<noteq> Some (today e)"
  shows "pointsAwarded r = 1
       \<and> reward (last_activity_date row) (yesterdayStr e) (today e) (current_streak row) = (1, 1)
       \<and> (update_user_points_ok e \<longrightarrow>
            map_option current_streak (user_points (snd (serve e req w)) u) = Some 1)"
proof -
  have rw: "reward (last_activity_date row) (yesterdayStr e) (today e) (current_streak row)
              = (1, 1)"
    using assms(5,6) by (simp add: reward_def)
  from serve_Ok200_ledger[OF assms(1,2)] obtain b where
    p: "pointsAwarded r = fst (reward_block e u (boost_of b) w)" and
    l: "user_points (snd (serve e req w)) = user_points (snd (reward_block e u (boost_of b) w))"
    by auto
  have "pointsAwarded r = 1"
    using p reward_block_row(1)[OF assms(3,4)] rw by simp
  moreover have "map_option current_streak (user_points (snd (serve e req w)) u) = Some 1"
    if "update_user_points_ok e"
    using l reward_block_row(2)[OF assms(3,4) that] rw by simp
  ultimately show ?thesis using rw by simp
qed

text \<open>
  In a zone whose offset does not change, and when both readings of the clock fall on
  the same day in UTC, \<open>yesterdayStr\<close> is the date of the day before \<open>today\<close>.
\<close>

lemma Day_minus_msPerDay: "Day (t - msPerDay) = Day t - 1"
proof -
  have "(t - 86400000) div 86400000 = t div (86400000 :: int) - 1"
    using div_add_self2[of "86400000 :: int" "t - 86400000"] by simp
  then show ?thesis by (simp add: Day_def msPerDay_def)
qed

lemma toISODate_cong: "Day s = Day t \<Longrightarrow> toISODate s = toISODate t"
  by (simp add: toISODate_def)

lemma yesterdayStr_one_day:
  assumes "\<forall>t isUTC. LocalTZA e t isUTC = z"
    and "Day (clock_yesterday e) = Day (clock_today e)"
  shows "yesterdayStr e = toISODate (clock_today e - msPerDay)"
proof -
  have "yesterdayTime e = clock_yesterday e - msPerDay"
    using assms(1) by (simp add: yesterdayTime_def UTC_def LocalTime_def)
  then have "Day (yesterdayTime e) = Day (clock_today e - msPerDay)"
    using assms(2) by (simp add: Day_minus_msPerDay)
  then show ?thesis unfolding yesterdayStr_def by (rule toISODate_cong)
qed

text \<open>
  Claim C3. The claim is about a ledger whose \<open>last_activity_date\<close> is the day
  before today. When midnight (UTC) falls between the handler's two readings of the
  clock, the string it computes for yesterday is today's date: a user last active on
  2024-02-29 who writes on 2024-03-01 gets 1 point and a streak of 1 instead of 6
  points and a streak of 3. The same happens in the zone of New York on the evening
  of the day on which daylight saving time ended, where the string computed for
  yesterday is the date of two days before.
\<close>

theorem yesterday_row_reset_at_midnight:
  "today midnight_env = ''2024-03-01''
   \<and> toISODate (clock_today midnight_env - msPerDay) = ''2024-02-29''
   \<and> yesterdayStr midnight_env = ''2024-03-01''
   \<and> user_points (example_world 3 (Some ''2024-02-29'')) ''ann''
       = Some (example_row 3 (Some ''2024-02-29''))
   \<and> current_streak (example_row 3 (Some ''2024-02-29'')) = 2
   \<and> fst (serve midnight_env (example_request False) (example_world 3 (Some ''2024-02-29'')))
       = Ok200 \<lparr>response = Some ''Hello!'', tokensUsed = 42, responseTime = 250,
                pointsAwarded = 1\<rparr>
   \<and> map_option current_streak
        (user_points (snd (serve midnight_env (example_request False)
           (example_world 3 (Some ''2024-02-29'')))) ''ann'') = Some 1
   \<and> today new_york_env = ''2024-11-04''
   \<and> toISODate (clock_today new_york_env - msPerDay) = ''2024-11-03''
   \<and> yesterdayStr new_york_env = ''2024-11-02''
   \<and> fst (serve new_york_env (example_request False) (example_world 3 (Some ''2024-11-03'')))
       = Ok200 \<lparr>response = Some ''Hello!'', tokensUsed = 42, responseTime = 250,
                pointsAwarded = 1\<rparr>
   \<and> map_option current_streak
        (user_points (snd (serve new_york_env (example_request False)
           (example_world 3 (Some ''2024-11-03'')))) ''ann'') = Some 1"
  by (simp add: example_defs serve_defs)

text \<open>
  Claim C4. The claim is about a ledger whose \<open>last_activity_date\<close> is today's
  date. When midnight (UTC) falls between the handler's two readings of the clock, the
  string it computes for yesterday is today's date as well, and the branch of
  yesterday is tested first: a user already active on 2024-03-01 who writes again on
  that day gets 6 points and a streak of 3 instead of 1 point and the streak of 2.
\<close>

theorem same_day_bonus_at_midnight:
  "today midnight_env = ''2024-03-01''
   \<and> yesterdayStr midnight_env = ''2024-03-01''
   \<and> last_activity_date (example_row 3 (Some ''2024-03-01'')) = Some (today midnight_env)
   \<and> user_points (example_world 3 (Some ''2024-03-01'')) ''ann''
       = Some (example_row 3 (Some ''2024-03-01''))
   \<and> current_streak (example_row 3 (Some ''2024-03-01'')) = 2
   \<and> fst (serve midnight_env (example_request False) (example_world 3 (Some ''2024-03-01'')))
       = Ok200 \<lparr>response = Some ''Hello!'', tokensUsed = 42, responseTime = 250,
                pointsAwarded = 6\<rparr>
   \<and> map_option current_streak
        (user_points (snd (serve midnight_env (example_request False)
           (example_world 3 (Some ''2024-03-01'')))) ''ann'') = Some 3"
  by (simp add: example_defs serve_defs)

text \<open>
  Claim C5. The claim is about a ledger whose \<open>last_activity_date\<close> is neither
  today's date nor that of the day before. In the zone of New York, on the evening of
  the day on which daylight saving time ended, the local time of one day earlier is
  25 hours back, and the string computed for yesterday is the date of two days before
  today in UTC: a user last active on 2024-11-02 who writes at 2024-11-04T00:30:00Z
  gets 6 points and a streak of 3 instead of 1 point and a streak of 1.
\<close>

theorem two_day_gap_bonus_after_long_day:
  "today new_york_env = ''2024-11-04''
   \<and> toISODate (clock_today new_york_env - msPerDay) = ''2024-11-03''
   \<and> toISODate (clock_today new_york_env - 2 * msPerDay) = ''2024-11-02''
   \<and> yesterdayStr new_york_env = ''2024-11-02''
   \<and> user_points (example_world 3 (Some ''2024-11-02'')) ''ann''
       = Some (example_row 3 (Some ''2024-11-02''))
   \<and> current_streak (example_row 3 (Some ''2024-11-02'')) = 2
   \<and> fst (serve new_york_env (example_request False) (example_world 3 (Some ''2024-11-02'')))
       = Ok200 \<lparr>response = Some ''Hello!'', tokensUsed = 42, responseTime = 250,
                pointsAwarded = 6\<rparr>
   \<and> map_option current_streak
        (user_points (snd (serve new_york_env (example_request False)
           (example_world 3 (Some ''2024-11-02'')))) ''ann'') = Some 3"
  by (simp add: example_defs serve_defs)

section \<open>The award of a successful request\<close>

text \<open>
  Claim C9. The \<open>pointsAwarded\<close> of a successful response is 1 or 6, and the assistant
  message that the request persists carries the same value as \<open>points_awarded\<close>
  (the message is the last row of the table when its insert succeeds).
\<close>

theorem awarded_one_or_six:
  assumes "fst (serve e req w) = Ok200 r"
  shows "(pointsAwarded r = 1 \<or> pointsAwarded r = 6)
       \<and> (save_assistant_message_ok e \<longrightarrow>
            messages (snd (serve e req w)) \<noteq> []
            \<and> role (last (messages (snd (serve e req w)))) = Assistant
            \<and> content (last (messages (snd (serve e req w)))) = response r
            \<and> points_awarded (last (messages (snd (serve e req w)))) = Some (pointsAwarded r))"
proof -
  obtain w' where s: "serve e req w = (Ok200 r, w')"
    using assms by (cases "serve e req w") simp
  from serve_Ok200D[OF s] obtain u where u: "requester e req = Inr u" by auto
  from serve_Ok200_ledger[OF assms u] obtain b where
    "pointsAwarded r = fst (reward_block e u (boost_of b) w)" by auto
  then have "pointsAwarded r = 1 \<or> pointsAwarded r = 6"
    using fst_reward_block_cases[of e u "boost_of b" w] by simp
  moreover from serve_Ok200_messages[OF assms u] obtain b' where
    "messages (snd (serve e req w)) =
               messages w
               @ (if save_user_message_ok e then [user_message_row u b'] else [])
               @ (if save_assistant_message_ok e then [assistant_message_row u b' r] else [])"
    by auto
  then have "save_assistant_message_ok e \<longrightarrow>
            messages (snd (serve e req w)) \<noteq> []
            \<and> last (messages (snd (serve e req w))) = assistant_message_row u b' r"
    by simp
  ultimately show ?thesis by (auto simp: assistant_message_row_def)
qed

theorem awarded_one_or_six_witness:
  "fst (serve example_env (example_request True) (example_world 3 (Some ''2024-03-01'')))
     = Ok200 \<lparr>response = Some ''Hello!'', tokensUsed = 42, responseTime = 250, pointsAwarded = 6\<rparr>
   \<and> save_assistant_message_ok example_env
   \<and> points_awarded (last (messages (snd (serve example_env (example_request True)
        (example_world 3 (Some ''2024-03-01''))))))
      = Some (pointsAwarded
          \<lparr>response = Some ''Hello!'', tokensUsed = 42, responseTime = 250, pointsAwarded = 6\<rparr>)"
proof -
  let ?w = "example_world 3 (Some ''2024-03-01'')"
  let ?r = "\<lparr>response = Some ''Hello!'', tokensUsed = 42, responseTime = 250, pointsAwarded = 6\<rparr>"
  have 1: "fst (serve example_env (example_request True) ?w) = Ok200 ?r"
    by (simp add: example_defs serve_defs)
  have 2: "save_assistant_message_ok example_env" by (simp add: example_env_def)
  from awarded_one_or_six[OF 1] 1 2 show ?thesis by simp
qed

text \<open>
  Claim C10. A successful request of a user without a ledger row skips the reward
  block: the ledger table is left as it was (no row is created, nothing is charged,
  whether or not the request is boosted) and the response still reports
  \<open>pointsAwarded = 1\<close>.
\<close>

theorem no_ledger_row_no_reward:
  assumes "fst (serve e req w) = Ok200 r"
    and "requester e req = Inr u"
    and "user_points w u = None"
  shows "user_points (snd (serve e req w)) = user_points w
       \<and> user_points (snd (serve e req w)) u = None
       \<and> purchases (snd (serve e req w)) = purchases w
       \<and> pointsAwarded r = 1"
proof -
  from serve_Ok200_ledger[OF assms(1,2)] obtain b where
    p: "pointsAwarded r = fst (reward_block e u (boost_of b) w)" and
    l: "user_points (snd (serve e req w)) = user_points (snd (reward_block e u (boost_of b) w))"
    by auto
  have pu: "purchases (snd (serve e req w)) = purchases w"
    by (rule purchases_serve)
  show ?thesis using p l pu assms(3) by (simp add: reward_block_skipped)
qed

theorem no_ledger_row_no_reward_witness:
  "fst (serve example_env (example_request True) new_user_world)
     = Ok200 \<lparr>response = Some ''Hello!'', tokensUsed = 42, responseTime = 250, pointsAwarded = 1\<rparr>
   \<and> user_points new_user_world ''ann'' = None
   \<and> user_points (snd (serve example_env (example_request True) new_user_world)) ''ann'' = None"
proof -
  let ?r = "\<lparr>response = Some ''Hello!'', tokensUsed = 42, responseTime = 250, pointsAwarded = 1\<rparr>"
  have 1: "fst (serve example_env (example_request True) new_user_world) = Ok200 ?r"
    by (simp add: example_defs serve_defs)
  have 2: "requester example_env (example_request True) = Inr ''ann''"
    by (simp add: example_defs requester_def)
  have 3: "user_points new_user_world ''ann'' = None" by (simp add: new_user_world_def)
  from no_ledger_row_no_reward[OF 1 2 3] 1 3 show ?thesis by simp
qed

section \<open>Failure of the response provider\<close>

lemma chat_provider_failure:
  assumes "message b \<noteq> []" and "conversationId b \<noteq> []" and "fetch_messages_ok e"
    and "gemini e (provider_request b w) = HttpReply ok cands tok"
    and "\<not> ok \<or> cands = None \<or> cands = Some []"
  shows "chat e u b w =
           (Status500 (Error (if \<not> ok then ''Failed to get response from Gemini''
                              else ''No response generated from Gemini'')),
            call_gemini b w (save_user_message e u b w))"
  using assms by (auto simp: chat_def finish_def)

text \<open>
  Claim C6. When the provider answers with a non-success status or without any
  candidate, the request fails with a \<open>ProviderError\<close>: no assistant message is
  stored and the ledger is left as it was; the table of messages holds what it held
  before and the user message inserted before the provider was called.
\<close>

theorem provider_failure_aborts:
  assumes "http_method req \<noteq> ''OPTIONS''"
    and "requester e req = Inr u"
    and "body req = Some b"
    and "message b \<noteq> []" and "conversationId b \<noteq> []"
    and "fetch_messages_ok e"
    and "gemini e (provider_request b w) = HttpReply ok cands tok"
    and "\<not> ok \<or> cands = None \<or> cands = Some []"
  shows "(\<exists>x. fst (serve e req w) = Status500 x \<and> ProviderError x)
       \<and> messages (snd (serve e req w)) =
           messages w @ (if save_user_message_ok e then [user_message_row u b] else [])
       \<and> user_points (snd (serve e req w)) = user_points w
       \<and> purchases (snd (serve e req w)) = purchases w"
proof -
  have s: "serve e req w = chat e u b w"
    using assms(1,2,3) by (simp add: serve_def)
  note c = chat_provider_failure[OF assms(4-8), of u]
  have "\<exists>x. fst (serve e req w) = Status500 x \<and> ProviderError x"
    unfolding s c by (simp add: ProviderError_def)
  moreover have "messages (snd (serve e req w)) =
           messages w @ (if save_user_message_ok e then [user_message_row u b] else [])"
    unfolding s c by (simp add: messages_call_gemini save_user_message_def)
  moreover have "user_points (snd (serve e req w)) = user_points w"
    unfolding s c by (simp add: user_points_call_gemini user_points_save_user_message)
  ultimately show ?thesis using purchases_serve[of e req w] by simp
qed

theorem provider_failure_aborts_witness:
  "fst (serve no_candidates_env (example_request False) (example_world 3 None))
     = Status500 (Error ''No response generated from Gemini'')
   \<and> ProviderError (Error ''No response generated from Gemini'')
   \<and> messages (snd (serve no_candidates_env (example_request False) (example_world 3 None)))
       = [\<lparr>conversation_id = ''c1'', user_id = ''ann'', content = Some ''Hi'', role = User,
           tokens_used = None, response_time_ms = None, points_awarded = None\<rparr>]
   \<and> user_points (snd (serve no_candidates_env (example_request False) (example_world 3 None)))
       = user_points (example_world 3 None)"
proof -
  let ?b = "\<lparr>message = ''Hi'', conversationId = ''c1'', style = Some ''technical'',
             boost = Some False\<rparr>"
  let ?w = "example_world 3 None"
  have 1: "http_method (example_request False) \<noteq> ''OPTIONS''"
    by (simp add: example_request_def)
  have 2: "requester no_candidates_env (example_request False) = Inr ''ann''"
    by (simp add: example_defs requester_def)
  have 3: "body (example_request False) = Some ?b" by (simp add: example_request_def)
  have 4: "message ?b \<noteq> []" and 5: "conversationId ?b \<noteq> []" by simp_all
  have 6: "fetch_messages_ok no_candidates_env" by (simp add: example_defs)
  have 7: "gemini no_candidates_env (provider_request ?b ?w) = HttpReply True (Some []) None"
    by (simp add: example_defs)
  have 8: "\<not> True \<or> Some ([] :: candidate list) = None
             \<or> Some ([] :: candidate list) = Some []" by simp
  have 9: "fst (serve no_candidates_env (example_request False) ?w)
     = Status500 (Error ''No response generated from Gemini'')"
    by (simp add: example_defs serve_defs)
  have 10: "save_user_message_ok no_candidates_env" by (simp add: example_defs)
  from provider_failure_aborts[OF 1 2 3 4 5 6 7 8] 9 10 show ?thesis
    by (simp add: user_message_row_def example_world_def ProviderError_def)
qed

section \<open>Boost without the balance for it\<close>

lemma chat_success:
  assumes "message b \<noteq> []" and "conversationId b \<noteq> []" and "fetch_messages_ok e"
    and "gemini e (provider_request b w) = HttpReply True (Some (FirstPart ai # cs)) tok"
  shows "\<exists>r. fst (chat e u b w) = Ok200 r
           \<and> gemini_calls (snd (chat e u b w)) = gemini_calls w @ [provider_request b w]"
  using assms
  by (simp add: chat_def finish_def Let_def split_beta save_assistant_message_def
      call_gemini_def save_user_message_def reward_block_def split: option.splits)

text \<open>
  Claim C2, as amended. A boosted request of a user whose balance is below the boost
  cost of 10 is not rejected: the provider is called (with the boosted token limit),
  the request succeeds, 10 is added to \<open>points_spent\<close>, and the new balance is
  \<open>max 0 (total_points + pointsAwarded - 10)\<close>. It is never negative, and it is 0
  whenever the balance and the award together do not exceed 10.
\<close>

theorem boost_charged_without_balance:
  assumes "http_method req \<noteq> ''OPTIONS''"
    and "requester e req = Inr u"
    and "body req = Some b"
    and "boost b = Some True"
    and "message b \<noteq> []" and "conversationId b \<noteq> []"
    and "fetch_messages_ok e"
    and "gemini e (provider_request b w) = HttpReply True (Some (FirstPart ai # cs)) tok"
    and "select_user_points_ok e" and "update_user_points_ok e"
    and "user_points w u = Some row"
    and "total_points row < 10"
  shows "\<exists>r row'. fst (serve e req w) = Ok200 r
           \<and> gemini_calls (snd (serve e req w)) = gemini_calls w @ [provider_request b w]
           \<and> maxOutputTokens (provider_request b w) = 4096
           \<and> user_points (snd (serve e req w)) u = Some row'
           \<and> points_spent row' = points_spent row + 10
           \<and> total_points row' = max 0 (total_points row + pointsAwarded r - 10)
           \<and> 0 \<le> total_points row'
           \<and> (total_points row + pointsAwarded r \<le> 10 \<longrightarrow> total_points row' = 0)"
proof -
  have s: "serve e req w = chat e u b w"
    using assms(1,2,3) by (simp add: serve_def)
  have bo: "boost_of b" using assms(4) by (simp add: boost_of_def)
  from chat_success[OF assms(5-8), of u] obtain r where
    r: "fst (serve e req w) = Ok200 r" and
    g: "gemini_calls (snd (serve e req w)) = gemini_calls w @ [provider_request b w]"
    unfolding s by auto
  from serve_Ok200_ledger[OF r assms(2)] assms(3) have
    p: "pointsAwarded r = fst (reward_block e u (boost_of b) w)" and
    l: "user_points (snd (serve e req w)) = user_points (snd (reward_block e u (boost_of b) w))"
    by auto
  let ?a = "fst (reward (last_activity_date row) (yesterdayStr e) (today e) (current_streak row))"
  let ?row' = "row\<lparr>total_points := max 0 (total_points row + ?a - pointsCost (boost_of b)),
              points_spent := points_spent row + pointsCost (boost_of b),
              current_streak := snd (reward (last_activity_date row) (yesterdayStr e) (today e) (current_streak row)),
              last_activity_date := Some (today e)\<rparr>"
  have a: "pointsAwarded r = ?a" using p reward_block_row(1)[OF assms(9,11)] by simp
  have u': "user_points (snd (serve e req w)) u = Some ?row'"
    using l reward_block_row(2)[OF assms(9,11,10)] by simp
  have m: "maxOutputTokens (provider_request b w) = 4096"
    using bo by (simp add: provider_request_def gemini_request_of_def)
  show ?thesis
    using r g m u' a bo by (intro exI[of _ r] exI[of _ ?row']) (simp add: pointsCost_def)
qed

theorem boost_charged_without_balance_witness:
  "total_points (example_row 3 (Some ''2024-03-02'')) < 10
   \<and> fst (serve example_env (example_request True) (example_world 3 (Some ''2024-03-02'')))
     = Ok200 \<lparr>response = Some ''Hello!'', tokensUsed = 42, responseTime = 250, pointsAwarded = 1\<rparr>
   \<and> length (gemini_calls (snd (serve example_env (example_request True)
        (example_world 3 (Some ''2024-03-02''))))) = 1
   \<and> map_option total_points (user_points (snd (serve example_env (example_request True)
        (example_world 3 (Some ''2024-03-02'')))) ''ann'') = Some 0
   \<and> map_option points_spent (user_points (snd (serve example_env (example_request True)
        (example_world 3 (Some ''2024-03-02'')))) ''ann'') = Some 10"
proof -
  let ?b = "\<lparr>message = ''Hi'', conversationId = ''c1'', style = Some ''technical'',
             boost = Some True\<rparr>"
  let ?w = "example_world 3 (Some ''2024-03-02'')"
  let ?row = "example_row 3 (Some ''2024-03-02'')"
  have 1: "http_method (example_request True) \<noteq> ''OPTIONS''"
    by (simp add: example_request_def)
  have 2: "requester example_env (example_request True) = Inr ''ann''"
    by (simp add: example_defs requester_def)
  have 3: "body (example_request True) = Some ?b" by (simp add: example_request_def)
  have 4: "boost ?b = Some True" and 5: "message ?b \<noteq> []" and 6: "conversationId ?b \<noteq> []"
    by simp_all
  have 7: "fetch_messages_ok example_env" by (simp add: example_defs)
  have 8: "gemini example_env (provider_request ?b ?w)
             = HttpReply True (Some (FirstPart (Some ''Hello!'') # [])) (Some 42)"
    by (simp add: example_defs)
  have 9: "select_user_points_ok example_env" and 10: "update_user_points_ok example_env"
    by (simp_all add: example_defs)
  have 11: "user_points ?w ''ann'' = Some ?row" by (simp add: example_defs)
  have 12: "total_points ?row < 10" by (simp add: example_defs)
  have 13: "points_spent ?row = 0" by (simp add: example_defs)
  have 14: "fst (serve example_env (example_request True) ?w)
     = Ok200 \<lparr>response = Some ''Hello!'', tokensUsed = 42, responseTime = 250, pointsAwarded = 1\<rparr>"
    by (simp add: example_defs serve_defs)
  have 15: "gemini_calls ?w = []" by (simp add: example_defs)
  from boost_charged_without_balance[OF 1 2 3 4 5 6 7 8 9 10 11 12] 12 13 14 15
  show ?thesis by auto
qed

text \<open>
  The balance after such a request is not always 0: a user with 9 points who is
  active on the day after the last activity earns 6 and is left with 5.
\<close>

theorem boost_balance_not_zero_counterexample:
  "total_points (example_row 9 (Some ''2024-03-01'')) < pointsCost True
   \<and> user_points (example_world 9 (Some ''2024-03-01'')) ''ann''
       = Some (example_row 9 (Some ''2024-03-01''))
   \<and> fst (serve example_env (example_request True) (example_world 9 (Some ''2024-03-01'')))
     = Ok200 \<lparr>response = Some ''Hello!'', tokensUsed = 42, responseTime = 250, pointsAwarded = 6\<rparr>
   \<and> map_option total_points (user_points (snd (serve example_env (example_request True)
        (example_world 9 (Some ''2024-03-01'')))) ''ann'') = Some 5
   \<and> map_option total_points (user_points (snd (serve example_env (example_request True)
        (example_world 9 (Some ''2024-03-01'')))) ''ann'') \<noteq> Some 0"
  by (simp add: example_defs serve_defs)

section \<open>The balance is never negative\<close>

lemma reward_block_write:
  assumes "user_points (snd (reward_block e u bst w)) v = Some row'"
  shows "user_points (snd (reward_block e u bst w)) v = user_points w v \<or> 0 \<le> total_points row'"
  using assms
  by (auto simp: reward_block_def Let_def split_beta split: option.splits if_splits)

lemma user_points_finish:
  "user_points (snd (finish e u b bst reply w)) = user_points w
   \<or> user_points (snd (finish e u b bst reply w)) = user_points (snd (reward_block e u bst w))"
  by (cases reply)
    (auto simp: finish_def Let_def split_beta user_points_save_assistant_message
      split: option.splits list.splits candidate.splits)

lemma user_points_chat:
  "user_points (snd (chat e u b w)) = user_points w
   \<or> user_points (snd (chat e u b w)) = user_points (snd (reward_block e u (boost_of b) w))"
proof -
  let ?w2 = "call_gemini b w (save_user_message e u b w)"
  have up: "user_points ?w2 = user_points w"
    by (simp add: user_points_call_gemini user_points_save_user_message)
  show ?thesis
    using user_points_finish[of e u b "boost_of b" "gemini e (provider_request b w)" ?w2]
      reward_block_cong(2)[OF up, of e u "boost_of b"] up
    by (auto simp: chat_def)
qed

lemma user_points_serve:
  "user_points (snd (serve e req w)) = user_points w
   \<or> (\<exists>u bst. user_points (snd (serve e req w)) = user_points (snd (reward_block e u bst w)))"
proof (cases "http_method req \<noteq> ''OPTIONS'' \<and> (\<exists>u b. requester e req = Inr u \<and> body req = Some b)")
  case True
  then obtain u b where "serve e req w = chat e u b w" by (auto simp: serve_def)
  then show ?thesis using user_points_chat[of e u b w] by auto
next
  case False
  then have "snd (serve e req w) = w"
    by (auto simp: serve_def split: sum.splits option.splits)
  then show ?thesis by simp
qed

lemma serve_write:
  assumes "user_points (snd (serve e req w)) v = Some row'"
  shows "user_points (snd (serve e req w)) v = user_points w v \<or> 0 \<le> total_points row'"
  using user_points_serve[of e req w] assms reward_block_write by metis

lemma purchaseItem_write:
  assumes "user_points (snd (snd (purchaseItem pe itemType itemName cost pd w))) v = Some row'"
  shows "user_points (snd (snd (purchaseItem pe itemType itemName cost pd w))) v = user_points w v
         \<or> 0 \<le> total_points row'"
  using assms
  by (auto simp: purchaseItem_def Let_def split: option.splits if_splits)

lemma step_write:
  assumes "user_points (step ev w) v = Some row'"
  shows "user_points (step ev w) v = user_points w v \<or> 0 \<le> total_points row'"
proof (cases ev)
  case (Serve e req)
  with assms serve_write[of e req w v row'] show ?thesis by simp
next
  case (PurchaseItem pe itemType itemName cost pd)
  with assms purchaseItem_write[of pe itemType itemName cost pd w v row'] show ?thesis by simp
qed

lemma ledger_nonneg_step:
  assumes "ledger_nonneg w"
  shows "ledger_nonneg (step ev w)"
  unfolding ledger_nonneg_def
proof (intro allI impI)
  fix v row'
  assume a: "user_points (step ev w) v = Some row'"
  from step_write[OF a] show "0 \<le> total_points row'"
  proof
    assume "user_points (step ev w) v = user_points w v"
    with a assms show ?thesis by (simp add: ledger_nonneg_def)
  qed
qed

lemma ledger_nonneg_run:
  "ledger_nonneg w \<Longrightarrow> ledger_nonneg (run evs w)"
  by (induction evs arbitrary: w) (simp_all add: ledger_nonneg_step)

text \<open>
  Claim C1. Every ledger row written by the edge function or by a shop purchase has a
  \<open>total_points\<close> that is not negative; so a ledger without negative balances stays
  so under any sequence of requests and purchases. The edge function stores
  \<open>max 0 (total_points + pointsAwarded - pointsCost)\<close>.
\<close>

theorem total_points_never_negative:
  "(user_points (step ev w) v = Some row' \<longrightarrow>
      user_points (step ev w) v = user_points w v \<or> 0 \<le> total_points row')
   \<and> (ledger_nonneg w \<longrightarrow> ledger_nonneg (run evs w))
   \<and> (fst (serve e req w) = Ok200 r \<and> requester e req = Inr u \<and> body req = Some b
        \<and> select_user_points_ok e \<and> update_user_points_ok e \<and> user_points w u = Some row \<longrightarrow>
      map_option total_points (user_points (snd (serve e req w)) u)
        = Some (max 0 (total_points row + pointsAwarded r - pointsCost (boost_of b))))"
proof (intro conjI impI)
  assume "user_points (step ev w) v = Some row'"
  then show "user_points (step ev w) v = user_points w v \<or> 0 \<le> total_points row'"
    by (rule step_write)
next
  assume "ledger_nonneg w"
  then show "ledger_nonneg (run evs w)" by (rule ledger_nonneg_run)
next
  assume a: "fst (serve e req w) = Ok200 r \<and> requester e req = Inr u \<and> body req = Some b
        \<and> select_user_points_ok e \<and> update_user_points_ok e \<and> user_points w u = Some row"
  then have 1: "fst (serve e req w) = Ok200 r" and 2: "requester e req = Inr u"
    and 3: "body req = Some b" and 4: "select_user_points_ok e"
    and 5: "update_user_points_ok e" and 6: "user_points w u = Some row" by simp_all
  from serve_Ok200_ledger[OF 1 2] 3 have
    p: "pointsAwarded r = fst (reward_block e u (boost_of b) w)" and
    l: "user_points (snd (serve e req w)) = user_points (snd (reward_block e u (boost_of b) w))"
    by auto
  show "map_option total_points (user_points (snd (serve e req w)) u)
        = Some (max 0 (total_points row + pointsAwarded r - pointsCost (boost_of b)))"
    using p l reward_block_row(1)[OF 4 6, of "boost_of b"]
      reward_block_row(2)[OF 4 6 5, of "boost_of b"] by simp
qed

theorem total_points_never_negative_witness:
  "user_points (step (PurchaseItem example_purchase_env ''style_pack'' ''Creative'' 5
       (example_display 7)) (example_world 3 None)) ''ann''
     = Some \<lparr>total_points = 2, points_spent = 5, current_streak = 2, last_activity_date = None\<rparr>
   \<and> ledger_nonneg (example_world 3 None)
   \<and> ledger_nonneg (run example_events (example_world 3 None))
   \<and> map_option total_points (user_points (run example_events (example_world 3 None)) ''ann'')
       = Some 0
   \<and> fst (serve example_env (example_request True) (example_world 3 None))
       = Ok200 \<lparr>response = Some ''Hello!'', tokensUsed = 42, responseTime = 250, pointsAwarded = 1\<rparr>
   \<and> map_option total_points
        (user_points (snd (serve example_env (example_request True) (example_world 3 None))) ''ann'')
       = Some (max 0 (3 + 1 - 10))"
proof -
  let ?w = "example_world 3 None"
  let ?ev = "PurchaseItem example_purchase_env ''style_pack'' ''Creative'' 5 (example_display 7)"
  let ?row' = "\<lparr>total_points = 2, points_spent = 5, current_streak = 2, last_activity_date = None\<rparr>"
  let ?r = "\<lparr>response = Some ''Hello!'', tokensUsed = 42, responseTime = 250, pointsAwarded = 1\<rparr>"
  let ?b = "\<lparr>message = ''Hi'', conversationId = ''c1'', style = Some ''technical'',
             boost = Some True\<rparr>"
  have 1: "user_points (step ?ev ?w) ''ann'' = Some ?row'"
    by (simp add: purchaseItem_def example_purchase_env_def example_display_def example_defs)
  have 2: "ledger_nonneg ?w"
    by (simp add: ledger_nonneg_def example_defs)
  have 3: "fst (serve example_env (example_request True) ?w) = Ok200 ?r
      \<and> requester example_env (example_request True) = Inr ''ann''
      \<and> body (example_request True) = Some ?b
      \<and> select_user_points_ok example_env \<and> update_user_points_ok example_env
      \<and> user_points ?w ''ann'' = Some (example_row 3 None)"
    by (simp add: example_defs serve_defs)
  have 4: "map_option total_points (user_points (run example_events ?w) ''ann'') = Some 0"
    by (simp add: example_events_def purchaseItem_def example_purchase_env_def
        example_display_def example_defs serve_defs)
  from total_points_never_negative[of ?ev ?w "''ann''" ?row' example_events example_env
      "example_request True" ?r "''ann''" ?b "example_row 3 None"] 1 2 3 4
  show ?thesis by (simp add: example_row_def pointsCost_def boost_of_def)
qed

section \<open>Regeneration\<close>

lemma replace_Bearer: "replace ''Bearer '' [] (''Bearer '' @ t) = t"
  by simp

lemma requester_invoke_request:
  assumes "getUser (server ce) (access_token ce) = Some u"
  shows "requester (server ce) (invoke_request ce st msg) = Inr u"
  using assms by (simp add: requester_def invoke_request_def)

lemma invoke_Some:
  assumes "fst (serve (server ce) (invoke_request ce st msg) w) = Ok200 r"
  shows "invoke ce st msg w = (Some r, snd (serve (server ce) (invoke_request ce st msg) w))"
  using assms by (cases "serve (server ce) (invoke_request ce st msg) w") (simp add: invoke_def)

text \<open>
  Claim C7, as amended. \<open>regenerateResponse\<close> calls the same edge function as
  \<open>sendMessage\<close>, with the content of the user message before the chosen one. The
  edge function has no variant that leaves out the insert of the user message, so a
  successful regeneration appends to the stored messages a user row with that content
  again (when its insert succeeds) and then the new assistant row.
\<close>

theorem regenerate_repeats_user_message:
  assumes "messageIndex \<noteq> 0" and "\<not> st_loading st"
    and "messageIndex - 1 < length (st_messages st)"
    and "ui_role (st_messages st ! (messageIndex - 1)) = User"
    and "getUser (server ce) (access_token ce) = Some u"
    and "fst (serve (server ce)
           (invoke_request ce st (ui_content (st_messages st ! (messageIndex - 1)))) w) = Ok200 r"
  shows "messages (snd (regenerateResponse ce messageIndex st w)) =
           messages w
           @ (if save_user_message_ok (server ce) then
                [\<lparr>conversation_id = prop_conversationId st, user_id = u,
                  content = ui_content (st_messages st ! (messageIndex - 1)), role = User,
                  tokens_used = None, response_time_ms = None, points_awarded = None\<rparr>]
              else [])
           @ (if save_assistant_message_ok (server ce) then
                [\<lparr>conversation_id = prop_conversationId st, user_id = u,
                  content = response r, role = Assistant,
                  tokens_used = Some (tokensUsed r), response_time_ms = Some (responseTime r),
                  points_awarded = Some (pointsAwarded r)\<rparr>]
              else [])"
proof -
  let ?msg = "ui_content (st_messages st ! (messageIndex - 1))"
  let ?req = "invoke_request ce st ?msg"
  have rg: "snd (regenerateResponse ce messageIndex st w) = snd (serve (server ce) ?req w)"
    using assms(1-4) invoke_Some[OF assms(6)]
    by (simp add: regenerateResponse_def Let_def)
  let ?b = "\<lparr>message = (case ?msg of None \<Rightarrow> [] | Some c \<Rightarrow> c),
             conversationId = prop_conversationId st,
             style = Some (st_style st), boost = Some (st_boost st)\<rparr>"
  have b: "body ?req = Some ?b"
    by (simp add: invoke_request_def)
  from serve_Ok200_messages[OF assms(6) requester_invoke_request[OF assms(5)]] b
  have ne: "message ?b \<noteq> []"
    and m: "messages (snd (serve (server ce) ?req w)) =
               messages w
               @ (if save_user_message_ok (server ce) then [user_message_row u ?b] else [])
               @ (if save_assistant_message_ok (server ce)
                  then [assistant_message_row u ?b r] else [])"
    by auto
  from ne have c: "Some (message ?b) = ?msg" by (cases ?msg) simp_all
  show ?thesis unfolding rg m using c
    by (simp add: user_message_row_def assistant_message_row_def)
qed

theorem regenerate_repeats_user_message_witness:
  "messages (snd (regenerateResponse example_client_env 1 example_interface example_chat_world)) =
     messages example_chat_world
     @ [\<lparr>conversation_id = ''c1'', user_id = ''ann'', content = Some ''Hi'', role = User,
          tokens_used = None, response_time_ms = None, points_awarded = None\<rparr>,
        \<lparr>conversation_id = ''c1'', user_id = ''ann'', content = Some ''Hello!'', role = Assistant,
          tokens_used = Some 42, response_time_ms = Some 250, points_awarded = Some 1\<rparr>]"
proof -
  let ?r = "\<lparr>response = Some ''Hello!'', tokensUsed = 42, responseTime = 250, pointsAwarded = 1\<rparr>"
  have 1: "(1::nat) \<noteq> 0" by simp
  have 2: "\<not> st_loading example_interface" by (simp add: example_interface_def)
  have 3: "(1::nat) - 1 < length (st_messages example_interface)"
    by (simp add: example_interface_def example_chat_world_def)
  have 4: "ui_role (st_messages example_interface ! (1 - 1)) = User"
    by (simp add: example_interface_def example_chat_world_def)
  have 5: "getUser (server example_client_env) (access_token example_client_env) = Some ''ann''"
    by (simp add: example_client_env_def example_env_def)
  have 6: "fst (serve (server example_client_env)
           (invoke_request example_client_env example_interface
              (ui_content (st_messages example_interface ! (1 - 1)))) example_chat_world) = Ok200 ?r"
    by (simp add: example_client_env_def example_interface_def example_chat_world_def
        invoke_request_def example_defs serve_defs)
  have 7: "ui_content (st_messages example_interface ! (1 - 1)) = Some ''Hi''"
    by (simp add: example_interface_def example_chat_world_def)
  have 8: "save_user_message_ok (server example_client_env)
         \<and> save_assistant_message_ok (server example_client_env)
         \<and> prop_conversationId example_interface = ''c1''"
    by (simp add: example_client_env_def example_env_def example_interface_def)
  from regenerate_repeats_user_message[OF 1 2 3 4 5 6] 7 8 show ?thesis by simp
qed

text \<open>
  Regenerating the answer of a conversation of one user message and one assistant
  message leaves four stored messages: the user message is stored twice.
\<close>

theorem regenerate_duplicate_counterexample:
  "messages example_chat_world =
     [\<lparr>conversation_id = ''c1'', user_id = ''ann'', content = Some ''Hi'', role = User,
       tokens_used = None, response_time_ms = None, points_awarded = None\<rparr>,
      \<lparr>conversation_id = ''c1'', user_id = ''ann'', content = Some ''Hello!'', role = Assistant,
       tokens_used = Some 42, response_time_ms = Some 250, points_awarded = Some 1\<rparr>]
   \<and> messages (snd (regenerateResponse example_client_env 1 example_interface example_chat_world)) =
     [\<lparr>conversation_id = ''c1'', user_id = ''ann'', content = Some ''Hi'', role = User,
       tokens_used = None, response_time_ms = None, points_awarded = None\<rparr>,
      \<lparr>conversation_id = ''c1'', user_id = ''ann'', content = Some ''Hello!'', role = Assistant,
       tokens_used = Some 42, response_time_ms = Some 250, points_awarded = Some 1\<rparr>,
      \<lparr>conversation_id = ''c1'', user_id = ''ann'', content = Some ''Hi'', role = User,
       tokens_used = None, response_time_ms = None, points_awarded = None\<rparr>,
      \<lparr>conversation_id = ''c1'', user_id = ''ann'', content = Some ''Hello!'', role = Assistant,
       tokens_used = Some 42, response_time_ms = Some 250, points_awarded = Some 1\<rparr>]
   \<and> messages (snd (regenerateResponse example_client_env 1 example_interface example_chat_world)) \<noteq>
     messages example_chat_world
     @ [\<lparr>conversation_id = ''c1'', user_id = ''ann'', content = Some ''Hello!'', role = Assistant,
         tokens_used = Some 42, response_time_ms = Some 250, points_awarded = Some 1\<rparr>]"
  by (simp add: regenerateResponse_def invoke_def invoke_request_def loadMessages_def Let_def
      example_client_env_def example_interface_def example_chat_world_def
      example_defs serve_defs)

section \<open>The title of a conversation\<close>

text \<open>
  Claim C8. The title made from a first message is the message itself when it has at
  most 50 characters, and otherwise its first 47 characters followed by three dots,
  50 characters in all. \<open>sendMessage\<close> passes exactly this title of the trimmed
  input to \<open>onUpdateTitle\<close>, and does so when the component holds no message yet
  and the request succeeded.
\<close>

theorem title_of_first_message:
  "(length userMessage \<le> 50 \<longrightarrow> title userMessage = userMessage)
   \<and> (50 < length userMessage \<longrightarrow>
        title userMessage = take 47 userMessage @ ''...''
        \<and> length (take 47 userMessage) = 47
        \<and> length (title userMessage) = 50)
   \<and> (fst (sendMessage ce st w) = Some t \<longrightarrow>
        st_messages st = [] \<and> t = title (trim (st_inputMessage st)))
   \<and> (st_messages st = [] \<and> trim (st_inputMessage st) \<noteq> [] \<and> \<not> st_loading st
        \<and> st_user st \<noteq> None
        \<and> fst (invoke ce st (Some (trim (st_inputMessage st))) w) \<noteq> None \<longrightarrow>
        fst (sendMessage ce st w) = Some (title (trim (st_inputMessage st))))"
proof (intro conjI impI)
  assume "length userMessage \<le> 50"
  then show "title userMessage = userMessage" by (simp add: title_def)
next
  assume a: "50 < length userMessage"
  then show "title userMessage = take 47 userMessage @ ''...''" by (simp add: title_def)
  from a show "length (take 47 userMessage) = 47" by simp
  from a show "length (title userMessage) = 50" by (simp add: title_def)
next
  assume a: "fst (sendMessage ce st w) = Some t"
  then show "st_messages st = []"
    by (auto simp: sendMessage_def Let_def split: if_splits prod.splits option.splits)
  from a show "t = title (trim (st_inputMessage st))"
    by (auto simp: sendMessage_def Let_def split: if_splits prod.splits option.splits)
next
  assume "st_messages st = [] \<and> trim (st_inputMessage st) \<noteq> [] \<and> \<not> st_loading st
        \<and> st_user st \<noteq> None
        \<and> fst (invoke ce st (Some (trim (st_inputMessage st))) w) \<noteq> None"
  then show "fst (sendMessage ce st w) = Some (title (trim (st_inputMessage st)))"
    by (auto simp: sendMessage_def Let_def split: if_splits prod.splits option.splits)
qed


theorem title_of_first_message_witness:
  "title ''Hello'' = ''Hello''
   \<and> length ''Please explain how the streak bonus is computed for every day'' = 61
   \<and> title ''Please explain how the streak bonus is computed for every day''
       = ''Please explain how the streak bonus is computed...''
   \<and> st_messages (new_chat_interface '' Hello '') = []
   \<and> fst (sendMessage example_client_env (new_chat_interface '' Hello '') new_user_world)
       = Some ''Hello''"
proof -
  let ?long = "''Please explain how the streak bonus is computed for every day''"
  let ?st = "new_chat_interface '' Hello ''"
  have t: "trim (st_inputMessage ?st) = ''Hello''"
    by (simp add: new_chat_interface_def trim_def isWhiteSpace_def)
  have 1: "length ''Hello'' \<le> 50" by simp
  have 2: "50 < length ?long" by simp
  have 3: "st_messages ?st = [] \<and> trim (st_inputMessage ?st) \<noteq> [] \<and> \<not> st_loading ?st
        \<and> st_user ?st \<noteq> None
        \<and> fst (invoke example_client_env ?st (Some (trim (st_inputMessage ?st))) new_user_world)
            \<noteq> None"
    unfolding t
    by (simp add: new_chat_interface_def invoke_def invoke_request_def example_client_env_def
        example_defs serve_defs)
  note short = title_of_first_message
    [of "''Hello''" example_client_env ?st new_user_world "''Hello''"]
  note long = title_of_first_message
    [of ?long example_client_env ?st new_user_world "''Hello''"]
  have a: "title ''Hello'' = ''Hello''" using short 1 by blast
  have "title ?long = take 47 ?long @ ''...''" using long 2 by blast
  then have b: "title ?long = ''Please explain how the streak bonus is computed...''" by simp
  have "fst (sendMessage example_client_env ?st new_user_world)
          = Some (title (trim (st_inputMessage ?st)))"
    using short 3 by blast
  then have c: "fst (sendMessage example_client_env ?st new_user_world) = Some ''Hello''"
    using a by (simp only: t)
  have d: "st_messages ?st = []" using short c by blast
  have e: "length ?long = 61" by simp
  from a e b d c show ?thesis by (intro conjI)
qed

end
